theory Spec2Isabelle
  imports Main "HOL-Library.AList"
begin

section \<open>The post routes of dev-connector (src/routes/api/posts.js)\<close>

text \<open>
  The file registers seven Express handlers on the Post collection. Each handler is
  embedded as a function from the request's inputs and the stored posts to the list of
  responses the handler sends, in the order it sends them, and the posts stored
  afterwards. The authentication middleware has run before a handler: the caller's id
  (\<^verbatim>\<open>req.user.id\<close>) is an input.
\<close>

subsection \<open>Documents\<close>

text \<open>
  An \<open>oid\<close> is a document id as the store holds it, written as the string that
  \<^verbatim>\<open>toString()\<close> and \<^verbatim>\<open>.id\<close> give for it. The ids in a request (the path parameters and
  \<^verbatim>\<open>req.user.id\<close>) are strings.
\<close>

type_synonym oid = string

record user =
  user_name :: string
  user_avatar :: string

record comment =
  comment_id :: oid
  comment_text :: string
  comment_name :: string
  comment_avatar :: string
  comment_user :: oid
  comment_date :: int

record post =
  post_text :: string
  post_name :: string
  post_avatar :: string
  post_user :: oid
  likes :: "oid list"
  comments :: "comment list"
  post_date :: int

text \<open>
  A collection is an association list from document ids to documents; the key of an
  entry is the document's \<^verbatim>\<open>_id\<close>.
\<close>

type_synonym 'a collection = "(oid \<times> 'a) list"

subsection \<open>Exceptions and store access\<close>

text \<open>
  \<^verbatim>\<open>CastError k\<close> is the store's error for an id that is not a well-formed identifier;
  its \<^verbatim>\<open>kind\<close> is \<^verbatim>\<open>'ObjectId'\<close>. \<^verbatim>\<open>TypeError\<close> is JavaScript's error for reading a
  property of \<^verbatim>\<open>null\<close>. \<^verbatim>\<open>MongoError\<close> is the store's duplicate-key error on insert.
\<close>

datatype exn = CastError string | TypeError | MongoError

fun kind :: "exn \<Rightarrow> string option" where
  "kind (CastError k) = Some k"
| "kind TypeError = None"
| "kind MongoError = None"

text \<open>
  \<^verbatim>\<open>Model.findById(id)\<close>: the driver first casts the string to a document id and throws
  the cast error when the string is not a well-formed identifier; it then looks the
  document up under that id and yields it, with its \<^verbatim>\<open>_id\<close>, or \<^verbatim>\<open>null\<close>. Which strings
  are well formed, and which id each of them denotes (several spellings can denote one
  id), is decided by the store's driver, not by this file: it is the parameter \<open>cast\<close>.
\<close>

definition findById ::
  "(string \<Rightarrow> oid option) \<Rightarrow> 'a collection \<Rightarrow> string \<Rightarrow> exn + (oid \<times> 'a) option" where
  "findById cast coll i =
     (case cast i of
        None \<Rightarrow> Inl (CastError ''ObjectId'')
      | Some k \<Rightarrow> Inr (map_option (Pair k) (map_of coll k)))"

text \<open>
  \<^verbatim>\<open>doc.save()\<close> on a document that was built with \<^verbatim>\<open>new\<close>: an insert under the id
  generated for it, refused by the store when the id is already taken.
\<close>

definition insert_doc :: "oid \<Rightarrow> 'a \<Rightarrow> 'a collection \<Rightarrow> exn + 'a collection" where
  "insert_doc i d coll =
     (if map_of coll i = None then Inr (AList.update i d coll) else Inl MongoError)"

text \<open>\<^verbatim>\<open>doc.save()\<close> and \<^verbatim>\<open>doc.remove()\<close> on a fetched document whose \<^verbatim>\<open>_id\<close> is \<open>i\<close>.\<close>

definition save :: "oid \<Rightarrow> 'a \<Rightarrow> 'a collection \<Rightarrow> 'a collection" where
  "save i d coll = AList.update i d coll"

definition remove :: "oid \<Rightarrow> 'a collection \<Rightarrow> 'a collection" where
  "remove i coll = AList.delete i coll"

subsection \<open>Responses\<close>

record verror =
  param :: string
  msg :: string

datatype body =
    Json_post post
  | Json_posts "post list"
  | Json_likes "oid list"
  | Json_comments "comment list"
  | Json_msg string
  | Json_errors "verror list"
  | Send_text string

text \<open>
  One call of \<^verbatim>\<open>res.status(n).json(b)\<close> or \<^verbatim>\<open>res.status(n).send(b)\<close>; \<^verbatim>\<open>res.json(b)\<close>
  alone has status 200.
\<close>

type_synonym send = "nat \<times> body"

text \<open>
  The response the client receives is the first one sent: a later send on the same
  response object cannot replace it.
\<close>

definition delivered :: "send list \<Rightarrow> send option" where
  "delivered sends = (case sends of [] \<Rightarrow> None | s # _ \<Rightarrow> Some s)"

definition server_error :: send where
  "server_error = (500, Send_text ''Server Error'')"

text \<open>
  \<^verbatim>\<open>check('text', 'Text is required').not().isEmpty()\<close> followed by
  \<^verbatim>\<open>validationResult(req)\<close>: one error when the text is the empty string (an absent
  field is validated as the empty string).
\<close>

definition validationResult :: "string \<Rightarrow> verror list" where
  "validationResult txt =
     (if txt = [] then [\<lparr>param = ''text'', msg = ''Text is required''\<rparr>] else [])"

subsection \<open>POST api/posts\<close>

text \<open>
  \<open>new_id\<close> and \<open>now\<close> are the id and the date the store's driver gives the new
  document; the schema (models/Post, not part of this file) starts \<^verbatim>\<open>likes\<close> and
  \<^verbatim>\<open>comments\<close> as empty arrays. Of the user document only the name and the avatar are
  read, so the record \<open>user\<close> has no other field (\<^verbatim>\<open>select('-password')\<close>).
\<close>

definition CreatePost_try ::
  "(string \<Rightarrow> oid option) \<Rightarrow> user collection \<Rightarrow> oid \<Rightarrow> int \<Rightarrow> oid \<Rightarrow> string \<Rightarrow> post collection
     \<Rightarrow> exn + (send list \<times> post collection)" where
  "CreatePost_try cast users new_id now caller txt posts =
     (case findById cast users caller of
        Inl err \<Rightarrow> Inl err
      | Inr None \<Rightarrow> Inl TypeError
      | Inr (Some (uid, usr)) \<Rightarrow>
          (let newPost = \<lparr>post_text = txt, post_name = user_name usr,
                          post_avatar = user_avatar usr, post_user = caller,
                          likes = [], comments = [], post_date = now\<rparr>
           in case insert_doc new_id newPost posts of
                Inl err \<Rightarrow> Inl err
              | Inr posts' \<Rightarrow> Inr ([(200, Json_post newPost)], posts')))"

definition CreatePost ::
  "(string \<Rightarrow> oid option) \<Rightarrow> user collection \<Rightarrow> oid \<Rightarrow> int \<Rightarrow> oid \<Rightarrow> string \<Rightarrow> post collection
     \<Rightarrow> send list \<times> post collection" where
  "CreatePost cast users new_id now caller txt posts =
     (let errors = validationResult txt in
      if errors \<noteq> [] then ([(400, Json_errors errors)], posts)
      else case CreatePost_try cast users new_id now caller txt posts of
             Inr r \<Rightarrow> r
           | Inl err \<Rightarrow> ([server_error], posts))"

subsection \<open>GET api/posts\<close>

text \<open>All posts, latest date first.\<close>

definition ListPosts :: "post collection \<Rightarrow> send list \<times> post collection" where
  "ListPosts posts = ([(200, Json_posts (sort_key (\<lambda>p. - post_date p) (map snd posts)))], posts)"

subsection \<open>GET api/posts/:id\<close>

definition GetPost_try :: "(string \<Rightarrow> oid option) \<Rightarrow> oid \<Rightarrow> post collection \<Rightarrow> exn + send list" where
  "GetPost_try cast pid posts =
     (case findById cast posts pid of
        Inl err \<Rightarrow> Inl err
      | Inr None \<Rightarrow> Inr [(404, Json_msg ''Post not found'')]
      | Inr (Some (k, p)) \<Rightarrow> Inr [(200, Json_post p)])"

text \<open>
  The catch block: the 404 send is not followed by a return, so the 500 send comes
  after it.
\<close>

definition GetPost_catch :: "exn \<Rightarrow> send list" where
  "GetPost_catch err =
     (if kind err = Some ''ObjectId'' then [(404, Json_msg ''Post not found'')] else [])
     @ [server_error]"

definition GetPost :: "(string \<Rightarrow> oid option) \<Rightarrow> oid \<Rightarrow> post collection \<Rightarrow> send list \<times> post collection" where
  "GetPost cast pid posts =
     (case GetPost_try cast pid posts of
        Inr sends \<Rightarrow> (sends, posts)
      | Inl err \<Rightarrow> (GetPost_catch err, posts))"

subsection \<open>DELETE api/posts/:id\<close>

definition DeletePost_try ::
  "(string \<Rightarrow> oid option) \<Rightarrow> oid \<Rightarrow> oid \<Rightarrow> post collection \<Rightarrow> exn + (send list \<times> post collection)" where
  "DeletePost_try cast caller pid posts =
     (case findById cast posts pid of
        Inl err \<Rightarrow> Inl err
      | Inr None \<Rightarrow> Inr ([(404, Json_msg ''Post not found'')], posts)
      | Inr (Some (k, p)) \<Rightarrow>
          if post_user p \<noteq> caller then Inr ([(401, Json_msg ''Not your post'')], posts)
          else Inr ([(200, Json_msg ''Post deleted'')], remove k posts))"

definition DeletePost_catch :: "exn \<Rightarrow> send list" where
  "DeletePost_catch err =
     (if kind err = Some ''ObjectId'' then [(404, Json_msg ''Post not found'')] else [])
     @ [server_error]"

definition DeletePost ::
  "(string \<Rightarrow> oid option) \<Rightarrow> oid \<Rightarrow> oid \<Rightarrow> post collection \<Rightarrow> send list \<times> post collection" where
  "DeletePost cast caller pid posts =
     (case DeletePost_try cast caller pid posts of
        Inr r \<Rightarrow> r
      | Inl err \<Rightarrow> (DeletePost_catch err, posts))"

subsection \<open>PUT api/posts/:id/tlike\<close>

definition liker_id :: "oid \<Rightarrow> oid" where
  \<comment> \<open>Modelled from the spec: the schema of \<^verbatim>\<open>likes\<close> (models/Post) is not part of this
      file. The spec's data model makes \<^verbatim>\<open>likes\<close> a sequence of user ids, so the \<^verbatim>\<open>id\<close>
      the handler reads from an entry is the user id that was stored.\<close>
  "liker_id liker = liker"

text \<open>
  The fetched post is used without a test for \<^verbatim>\<open>null\<close>: reading \<^verbatim>\<open>post.likes\<close> of a
  missing post throws.
\<close>

definition ToggleLike_try ::
  "(string \<Rightarrow> oid option) \<Rightarrow> oid \<Rightarrow> oid \<Rightarrow> post collection \<Rightarrow> exn + (send list \<times> post collection)" where
  "ToggleLike_try cast caller pid posts =
     (case findById cast posts pid of
        Inl err \<Rightarrow> Inl err
      | Inr None \<Rightarrow> Inl TypeError
      | Inr (Some (k, p)) \<Rightarrow>
          (let likes' =
                 (if length (filter (\<lambda>liker. liker_id liker = caller) (likes p)) = 0
                  then caller # likes p
                  else filter (\<lambda>liker. liker_id liker \<noteq> caller) (likes p))
           in Inr ([(200, Json_likes likes')], save k (p\<lparr>likes := likes'\<rparr>) posts)))"

definition ToggleLike ::
  "(string \<Rightarrow> oid option) \<Rightarrow> oid \<Rightarrow> oid \<Rightarrow> post collection \<Rightarrow> send list \<times> post collection" where
  "ToggleLike cast caller pid posts =
     (case ToggleLike_try cast caller pid posts of
        Inr r \<Rightarrow> r
      | Inl err \<Rightarrow> ([server_error], posts))"

subsection \<open>POST api/posts/:id\<close>

text \<open>
  \<open>new_cid\<close> and \<open>now\<close> are the id and the date the store's driver gives the new
  comment. The user is read (\<^verbatim>\<open>user.name\<close>) before the post is (\<^verbatim>\<open>post.comments\<close>);
  either is used without a test for \<^verbatim>\<open>null\<close>.
\<close>

definition AddComment_try ::
  "(string \<Rightarrow> oid option) \<Rightarrow> user collection \<Rightarrow> oid \<Rightarrow> int \<Rightarrow> oid \<Rightarrow> oid \<Rightarrow> string \<Rightarrow> post collection
     \<Rightarrow> exn + (send list \<times> post collection)" where
  "AddComment_try cast users new_cid now caller pid txt posts =
     (case findById cast users caller of
        Inl err \<Rightarrow> Inl err
      | Inr user \<Rightarrow>
          (case findById cast posts pid of
             Inl err \<Rightarrow> Inl err
           | Inr post \<Rightarrow>
               (case user of
                  None \<Rightarrow> Inl TypeError
                | Some (uid, usr) \<Rightarrow>
                    (let newComment = \<lparr>comment_id = new_cid, comment_text = txt,
                                        comment_name = user_name usr,
                                        comment_avatar = user_avatar usr,
                                        comment_user = caller, comment_date = now\<rparr>
                     in case post of
                          None \<Rightarrow> Inl TypeError
                        | Some (k, p) \<Rightarrow>
                            (let p' = p\<lparr>comments := newComment # comments p\<rparr>
                             in Inr ([(200, Json_comments (comments p'))], save k p' posts))))))"

definition AddComment ::
  "(string \<Rightarrow> oid option) \<Rightarrow> user collection \<Rightarrow> oid \<Rightarrow> int \<Rightarrow> oid \<Rightarrow> oid \<Rightarrow> string \<Rightarrow> post collection
     \<Rightarrow> send list \<times> post collection" where
  "AddComment cast users new_cid now caller pid txt posts =
     (let errors = validationResult txt in
      if errors \<noteq> [] then ([(400, Json_errors errors)], posts)
      else case AddComment_try cast users new_cid now caller pid txt posts of
             Inr r \<Rightarrow> r
           | Inl err \<Rightarrow> ([server_error], posts))"

subsection \<open>DELETE api/posts/:p_id/:c_id\<close>

definition DeleteComment_try ::
  "(string \<Rightarrow> oid option) \<Rightarrow> oid \<Rightarrow> oid \<Rightarrow> oid \<Rightarrow> post collection \<Rightarrow> exn + (send list \<times> post collection)" where
  "DeleteComment_try cast caller p_id c_id posts =
     (case findById cast posts p_id of
        Inl err \<Rightarrow> Inl err
      | Inr None \<Rightarrow> Inr ([(404, Json_msg ''Post not found'')], posts)
      | Inr (Some (k, p)) \<Rightarrow>
          (let commentsMatched = filter (\<lambda>cmt. comment_id cmt = c_id) (comments p) in
           if length commentsMatched \<noteq> 1
           then Inr ([(404, Json_msg ''Comment not found'')], posts)
           else
             (let cmt = commentsMatched ! 0 in
              if comment_user cmt \<noteq> caller
              then Inr ([(401, Json_msg ''Not your comment'')], posts)
              else
                (let p' = p\<lparr>comments := filter (\<lambda>cmt. comment_id cmt \<noteq> c_id) (comments p)\<rparr>
                 in Inr ([(200, Json_msg ''Comment deleted'')], save k p' posts)))))"

definition DeleteComment_catch :: "exn \<Rightarrow> send list" where
  "DeleteComment_catch err =
     (if kind err = Some ''ObjectId'' then [(404, Json_msg ''Couldn't locate resource'')] else [])
     @ [server_error]"

definition DeleteComment ::
  "(string \<Rightarrow> oid option) \<Rightarrow> oid \<Rightarrow> oid \<Rightarrow> oid \<Rightarrow> post collection \<Rightarrow> send list \<times> post collection" where
  "DeleteComment cast caller p_id c_id posts =
     (case DeleteComment_try cast caller p_id c_id posts of
        Inr r \<Rightarrow> r
      | Inl err \<Rightarrow> (DeleteComment_catch err, posts))"

subsection \<open>Sequences of requests\<close>

datatype request =
    Req_CreatePost oid int oid string
  | Req_ListPosts
  | Req_GetPost oid
  | Req_DeletePost oid oid
  | Req_ToggleLike oid oid
  | Req_AddComment oid int oid oid string
  | Req_DeleteComment oid oid oid

fun handle :: "(string \<Rightarrow> oid option) \<Rightarrow> user collection \<Rightarrow> request \<Rightarrow> post collection
    \<Rightarrow> send list \<times> post collection" where
  "handle cast users (Req_CreatePost new_id now caller txt) posts =
     CreatePost cast users new_id now caller txt posts"
| "handle cast users Req_ListPosts posts = ListPosts posts"
| "handle cast users (Req_GetPost pid) posts = GetPost cast pid posts"
| "handle cast users (Req_DeletePost caller pid) posts = DeletePost cast caller pid posts"
| "handle cast users (Req_ToggleLike caller pid) posts = ToggleLike cast caller pid posts"
| "handle cast users (Req_AddComment new_cid now caller pid txt) posts =
     AddComment cast users new_cid now caller pid txt posts"
| "handle cast users (Req_DeleteComment caller p_id c_id) posts =
     DeleteComment cast caller p_id c_id posts"

text \<open>The posts stored after a sequence of requests, served one after the other.\<close>

fun run :: "(string \<Rightarrow> oid option) \<Rightarrow> user collection \<Rightarrow> request list \<Rightarrow> post collection
    \<Rightarrow> post collection" where
  "run cast users [] posts = posts"
| "run cast users (r # rs) posts = run cast users rs (snd (handle cast users r posts))"

text \<open>No user id occurs twice in the \<^verbatim>\<open>likes\<close> of any stored post.\<close>

definition likes_distinct :: "post collection \<Rightarrow> bool" where
  "likes_distinct posts = list_all (\<lambda>(i, p). distinct (likes p)) posts"

section \<open>Properties\<close>

subsection \<open>The store\<close>

lemma map_of_save: "map_of (save i d coll) = (map_of coll)(i \<mapsto> d)"
  by (simp add: save_def update_conv')

lemma map_of_remove: "map_of (remove i coll) = (map_of coll)(i := None)"
  by (simp add: remove_def delete_conv')

lemma save_save: "save i d (save i d' coll) = save i d coll"
  by (simp add: save_def)

lemma save_same: "map_of coll i = Some d \<Longrightarrow> save i d coll = coll"
  by (simp add: save_def update_triv)

lemma list_all_update:
  "list_all P coll \<Longrightarrow> P (i, d) \<Longrightarrow> list_all P (AList.update i d coll)"
  by (induction coll) auto

lemma list_all_delete: "list_all P coll \<Longrightarrow> list_all P (AList.delete i coll)"
  by (induction coll) auto

lemma list_all_map_of: "list_all P coll \<Longrightarrow> map_of coll i = Some d \<Longrightarrow> P (i, d)"
  by (induction coll) (auto split: if_splits)

subsection \<open>Toggling a like\<close>

lemma ToggleLike_found:
  assumes "cast pid = Some k" and "map_of posts k = Some p"
  shows "ToggleLike cast caller pid posts =
           (if caller \<in> set (likes p)
            then ([(200, Json_likes (filter (\<lambda>liker. liker \<noteq> caller) (likes p)))],
                  save k (p\<lparr>likes := filter (\<lambda>liker. liker \<noteq> caller) (likes p)\<rparr>) posts)
            else ([(200, Json_likes (caller # likes p))],
                  save k (p\<lparr>likes := caller # likes p\<rparr>) posts))"
  using assms
  by (auto simp: ToggleLike_def ToggleLike_try_def findById_def liker_id_def Let_def
      filter_empty_conv)

lemma ToggleLike_missing:
  "cast pid = Some k \<Longrightarrow> map_of posts k = None \<Longrightarrow> ToggleLike cast caller pid posts = ([server_error], posts)"
  by (simp add: ToggleLike_def ToggleLike_try_def findById_def)

lemma ToggleLike_malformed:
  "cast pid = None \<Longrightarrow> ToggleLike cast caller pid posts = ([server_error], posts)"
  by (simp add: ToggleLike_def ToggleLike_try_def findById_def)


text \<open>
  C1 (as amended). Two calls of ToggleLike in succession, by the same caller on the same
  stored post, leave the post stored with the caller's id at the head of \<^verbatim>\<open>likes\<close>,
  followed by the other ids in their order, when the caller's id was in \<^verbatim>\<open>likes\<close>, and
  with \<^verbatim>\<open>likes\<close> as it was when the caller's id was not. The set of ids in \<^verbatim>\<open>likes\<close> is
  the original one in both cases. The stored posts are exactly the original ones when
  the caller's id was absent, and when it was the first element and occurred once.
\<close>

theorem ToggleLike_twice:
  assumes "cast pid = Some k" and "map_of posts k = Some p"
  shows "snd (ToggleLike cast caller pid (snd (ToggleLike cast caller pid posts))) =
           save k (p\<lparr>likes := (if caller \<in> set (likes p)
                                  then caller # filter (\<lambda>liker. liker \<noteq> caller) (likes p)
                                  else likes p)\<rparr>) posts
       \<and> set (if caller \<in> set (likes p)
               then caller # filter (\<lambda>liker. liker \<noteq> caller) (likes p)
               else likes p) = set (likes p)
       \<and> (caller \<notin> set (likes p) \<longrightarrow>
            snd (ToggleLike cast caller pid (snd (ToggleLike cast caller pid posts))) = posts)
       \<and> (\<forall>others. likes p = caller # others \<and> caller \<notin> set others \<longrightarrow>
            snd (ToggleLike cast caller pid (snd (ToggleLike cast caller pid posts))) = posts)"
proof -
  let ?twice = "snd (ToggleLike cast caller pid (snd (ToggleLike cast caller pid posts)))"
  let ?moved = "if caller \<in> set (likes p)
                then caller # filter (\<lambda>liker. liker \<noteq> caller) (likes p) else likes p"
  have twice: "?twice = save k (p\<lparr>likes := ?moved\<rparr>) posts"
  proof (cases "caller \<in> set (likes p)")
    case True
    let ?p1 = "p\<lparr>likes := filter (\<lambda>liker. liker \<noteq> caller) (likes p)\<rparr>"
    have first: "snd (ToggleLike cast caller pid posts) = save k ?p1 posts"
      using True by (simp add: ToggleLike_found [of cast pid k, OF assms])
    have stored: "map_of (save k ?p1 posts) k = Some ?p1"
      by (simp add: map_of_save)
    show ?thesis
      using True by (simp add: first ToggleLike_found [of cast pid k, OF assms(1) stored] save_save)
  next
    case False
    let ?p1 = "p\<lparr>likes := caller # likes p\<rparr>"
    have first: "snd (ToggleLike cast caller pid posts) = save k ?p1 posts"
      using False by (simp add: ToggleLike_found [of cast pid k, OF assms])
    have stored: "map_of (save k ?p1 posts) k = Some ?p1"
      by (simp add: map_of_save)
    have same: "filter (\<lambda>liker. liker \<noteq> caller) (likes p) = likes p"
      using False by (auto simp: filter_id_conv)
    show ?thesis
      using False by (simp add: first ToggleLike_found [of cast pid k, OF assms(1) stored] save_save same)
  qed
  have sets: "set ?moved = set (likes p)"
    by auto
  have absent: "caller \<notin> set (likes p) \<longrightarrow> ?twice = posts"
    using assms(2) by (simp add: twice save_same)
  have head: "\<forall>others. likes p = caller # others \<and> caller \<notin> set others \<longrightarrow> ?twice = posts"
  proof (intro allI impI)
    fix others
    assume h: "likes p = caller # others \<and> caller \<notin> set others"
    then have "filter (\<lambda>liker. liker \<noteq> caller) (likes p) = others"
      by (auto simp: filter_id_conv)
    with h have "p\<lparr>likes := ?moved\<rparr> = p"
      by simp
    then show "?twice = posts"
      using assms(2) by (simp add: twice save_same)
  qed
  from twice sets absent head show ?thesis
    by blast
qed

text \<open>
  The theorem at a post whose \<^verbatim>\<open>likes\<close> hold the caller's id in second place: after the
  two calls it is in first place.
\<close>

theorem ToggleLike_twice_witness:
  "snd (ToggleLike (\<lambda>i. if length i = 2 then Some i else None) ''u1'' ''p1''
      (snd (ToggleLike (\<lambda>i. if length i = 2 then Some i else None) ''u1'' ''p1''
        [(''p1'', \<lparr>post_text = ''hello'', post_name = ''Una'', post_avatar = ''una.png'',
                   post_user = ''u1'', likes = [''u2'', ''u1''], comments = [],
                   post_date = 7\<rparr>)])))
   = [(''p1'', \<lparr>post_text = ''hello'', post_name = ''Una'', post_avatar = ''una.png'',
                post_user = ''u1'', likes = [''u1'', ''u2''], comments = [],
                post_date = 7\<rparr>)]"
  using ToggleLike_twice [where cast = "\<lambda>i. if length i = 2 then Some i else None"
      and pid = "''p1''" and k = "''p1''"
      and caller = "''u1''"
      and posts = "[(''p1'', \<lparr>post_text = ''hello'', post_name = ''Una'',
                     post_avatar = ''una.png'', post_user = ''u1'', likes = [''u2'', ''u1''],
                     comments = [], post_date = 7\<rparr>)]"
      and p = "\<lparr>post_text = ''hello'', post_name = ''Una'', post_avatar = ''una.png'',
                post_user = ''u1'', likes = [''u2'', ''u1''], comments = [], post_date = 7\<rparr>"]
  by (simp add: save_def)


text \<open>
  C1 as stated fails on the order. User u1 creates a post and likes it, then u2 likes
  it: \<^verbatim>\<open>likes\<close> is [u2, u1]. Two toggles by u1 then give [u1, u2].
\<close>

theorem ToggleLike_twice_counterexample:
  "run (\<lambda>i. if length i = 2 then Some i else None) [(''u1'', \<lparr>user_name = ''Una'', user_avatar = ''una.png''\<rparr>)]
     [Req_CreatePost ''p1'' 7 ''u1'' ''hello'', Req_ToggleLike ''u1'' ''p1'',
      Req_ToggleLike ''u2'' ''p1''] []
   = [(''p1'', \<lparr>post_text = ''hello'', post_name = ''Una'', post_avatar = ''una.png'',
                post_user = ''u1'', likes = [''u2'', ''u1''], comments = [],
                post_date = 7\<rparr>)]
   \<and> snd (ToggleLike (\<lambda>i. if length i = 2 then Some i else None) ''u1'' ''p1''
      (snd (ToggleLike (\<lambda>i. if length i = 2 then Some i else None) ''u1'' ''p1''
        [(''p1'', \<lparr>post_text = ''hello'', post_name = ''Una'', post_avatar = ''una.png'',
                   post_user = ''u1'', likes = [''u2'', ''u1''], comments = [],
                   post_date = 7\<rparr>)])))
   = [(''p1'', \<lparr>post_text = ''hello'', post_name = ''Una'', post_avatar = ''una.png'',
                post_user = ''u1'', likes = [''u1'', ''u2''], comments = [],
                post_date = 7\<rparr>)]
   \<and> [''u1'', ''u2''] \<noteq> [''u2'', ''u1'']"
  by (simp add: CreatePost_def CreatePost_try_def validationResult_def findById_def
      insert_doc_def ToggleLike_def ToggleLike_try_def liker_id_def save_def Let_def)


subsection \<open>No id twice in likes\<close>

lemma likes_distinct_save:
  "likes_distinct posts \<Longrightarrow> distinct (likes p) \<Longrightarrow> likes_distinct (save i p posts)"
  by (simp add: likes_distinct_def save_def list_all_update)

lemma likes_distinct_remove: "likes_distinct posts \<Longrightarrow> likes_distinct (remove i posts)"
  by (simp add: likes_distinct_def remove_def list_all_delete)

lemma likes_distinct_map_of:
  "likes_distinct posts \<Longrightarrow> map_of posts i = Some p \<Longrightarrow> distinct (likes p)"
  using list_all_map_of [of "\<lambda>(i, p). distinct (likes p)" posts i p]
  by (simp add: likes_distinct_def)

lemma likes_distinct_CreatePost:
  "likes_distinct posts \<Longrightarrow>
   likes_distinct (snd (CreatePost cast users new_id now caller txt posts))"
  by (auto simp: CreatePost_def CreatePost_try_def insert_doc_def Let_def likes_distinct_def
      list_all_update split: sum.splits option.splits)

lemma likes_distinct_DeletePost:
  "likes_distinct posts \<Longrightarrow> likes_distinct (snd (DeletePost cast caller pid posts))"
  by (auto simp: DeletePost_def DeletePost_try_def likes_distinct_remove
      split: sum.splits option.splits)

lemma likes_distinct_ToggleLike:
  assumes "likes_distinct posts"
  shows "likes_distinct (snd (ToggleLike cast caller pid posts))"
proof (cases "cast pid")
  case None
  then show ?thesis using assms by (simp add: ToggleLike_malformed)
next
  case cast_k: (Some k)
  show ?thesis
  proof (cases "map_of posts k")
    case None
    then show ?thesis using assms cast_k by (simp add: ToggleLike_missing)
  next
    case (Some p)
    have "distinct (likes p)"
      using assms Some by (rule likes_distinct_map_of)
    then show ?thesis
      using assms
      by (simp add: ToggleLike_found [of cast pid k, OF cast_k Some] likes_distinct_save)
  qed
qed

lemma likes_distinct_AddComment:
  assumes "likes_distinct posts"
  shows "likes_distinct (snd (AddComment cast users new_cid now caller pid txt posts))"
proof -
  have "likes_distinct (save k (p\<lparr>comments := cs\<rparr>) posts)"
    if "map_of posts k = Some p" for k p cs
    using assms that by (simp add: likes_distinct_save likes_distinct_map_of)
  then show ?thesis
    using assms
    by (auto simp: AddComment_def AddComment_try_def findById_def Let_def
        split: sum.splits option.splits if_splits)
qed

lemma likes_distinct_DeleteComment:
  assumes "likes_distinct posts"
  shows "likes_distinct (snd (DeleteComment cast caller p_id c_id posts))"
proof -
  have "likes_distinct (save k (p\<lparr>comments := cs\<rparr>) posts)"
    if "map_of posts k = Some p" for k p cs
    using assms that by (simp add: likes_distinct_save likes_distinct_map_of)
  then show ?thesis
    using assms
    by (auto simp: DeleteComment_def DeleteComment_try_def findById_def Let_def
        split: sum.splits option.splits if_splits)
qed

lemma likes_distinct_handle:
  "likes_distinct posts \<Longrightarrow> likes_distinct (snd (handle cast users r posts))"
  by (cases r)
    (simp_all add: likes_distinct_CreatePost likes_distinct_DeletePost
      likes_distinct_ToggleLike likes_distinct_AddComment likes_distinct_DeleteComment
      ListPosts_def GetPost_def split: sum.splits)

lemma likes_distinct_run:
  "likes_distinct posts \<Longrightarrow> likes_distinct (run cast users reqs posts)"
  by (induction reqs arbitrary: posts) (simp_all add: likes_distinct_handle)


lemma likes_kept_CreatePost:
  "map_of (snd (CreatePost cast users new_id now caller input posts)) i = Some q \<Longrightarrow>
   map_of posts i = Some q \<or> (map_of posts i = None \<and> likes q = [])"
  by (auto simp: CreatePost_def CreatePost_try_def insert_doc_def findById_def Let_def
      update_conv' split: sum.splits option.splits if_splits)

lemma likes_kept_DeletePost:
  "map_of (snd (DeletePost cast caller pid posts)) i = Some q \<Longrightarrow> map_of posts i = Some q"
  by (auto simp: DeletePost_def DeletePost_try_def findById_def map_of_remove
      split: sum.splits option.splits if_splits)

lemma likes_kept_AddComment:
  "map_of (snd (AddComment cast users new_cid now caller pid input posts)) i = Some q \<Longrightarrow>
   \<exists>q'. map_of posts i = Some q' \<and> likes q' = likes q"
  by (auto simp: AddComment_def AddComment_try_def findById_def Let_def map_of_save
      split: sum.splits option.splits if_splits)

lemma likes_kept_DeleteComment:
  "map_of (snd (DeleteComment cast caller p_id c_id posts)) i = Some q \<Longrightarrow>
   \<exists>q'. map_of posts i = Some q' \<and> likes q' = likes q"
  by (auto simp: DeleteComment_def DeleteComment_try_def findById_def Let_def map_of_save
      split: sum.splits option.splits if_splits)

lemma likes_kept_handle:
  assumes "\<forall>caller pid. r \<noteq> Req_ToggleLike caller pid"
    and "map_of (snd (handle cast users r posts)) i = Some q"
  shows "(\<exists>q'. map_of posts i = Some q' \<and> likes q' = likes q)
         \<or> (map_of posts i = None \<and> likes q = [])"
proof (cases r)
  case (Req_CreatePost new_id now caller input)
  then show ?thesis using assms(2) likes_kept_CreatePost [of cast users new_id now caller input posts i q]
    by auto
next
  case Req_ListPosts
  then show ?thesis using assms(2) by (simp add: ListPosts_def)
next
  case (Req_GetPost pid)
  then show ?thesis using assms(2) by (simp add: GetPost_def split: sum.splits)
next
  case (Req_DeletePost caller pid)
  then show ?thesis using assms(2) likes_kept_DeletePost [of cast caller pid posts i q]
    by auto
next
  case (Req_ToggleLike caller pid)
  then show ?thesis using assms(1) by simp
next
  case (Req_AddComment new_cid now caller pid input)
  then show ?thesis
    using assms(2) likes_kept_AddComment [of cast users new_cid now caller pid input posts i q]
    by auto
next
  case (Req_DeleteComment caller p_id c_id)
  then show ?thesis using assms(2) likes_kept_DeleteComment [of cast caller p_id c_id posts i q]
    by auto
qed

text \<open>
  C2. In every state reached from the empty collection by any sequence of requests, no
  user id occurs twice in the \<^verbatim>\<open>likes\<close> of a stored post, and every handler preserves
  this. A handler other than ToggleLike leaves the \<^verbatim>\<open>likes\<close> of every post it keeps as
  they were, and a post it adds has none. ToggleLike on a stored post whose \<^verbatim>\<open>likes\<close>
  contain the caller's id stores and returns \<^verbatim>\<open>likes\<close> without that id instead of
  adding it again.
\<close>

theorem likes_at_most_once:
  "likes_distinct (run cast users reqs [])
   \<and> (likes_distinct posts \<longrightarrow> likes_distinct (snd (handle cast users r posts)))
   \<and> ((\<forall>caller pid. r \<noteq> Req_ToggleLike caller pid)
        \<and> map_of (snd (handle cast users r posts)) i = Some q \<longrightarrow>
        (\<exists>q'. map_of posts i = Some q' \<and> likes q' = likes q)
        \<or> (map_of posts i = None \<and> likes q = []))
   \<and> (cast pid = Some k \<and> map_of posts k = Some p \<and> caller \<in> set (likes p) \<longrightarrow>
        ToggleLike cast caller pid posts =
          ([(200, Json_likes (filter (\<lambda>liker. liker \<noteq> caller) (likes p)))],
           save k (p\<lparr>likes := filter (\<lambda>liker. liker \<noteq> caller) (likes p)\<rparr>) posts)
        \<and> caller \<notin> set (filter (\<lambda>liker. liker \<noteq> caller) (likes p)))"
proof -
  have reach: "likes_distinct (run cast users reqs [])"
    by (rule likes_distinct_run) (simp add: likes_distinct_def)
  have step: "likes_distinct posts \<longrightarrow> likes_distinct (snd (handle cast users r posts))"
    by (simp add: likes_distinct_handle)
  have kept: "(\<forall>caller pid. r \<noteq> Req_ToggleLike caller pid)
        \<and> map_of (snd (handle cast users r posts)) i = Some q \<longrightarrow>
        (\<exists>q'. map_of posts i = Some q' \<and> likes q' = likes q)
        \<or> (map_of posts i = None \<and> likes q = [])"
    using likes_kept_handle [of r cast users posts i q] by blast
  have unlike: "cast pid = Some k \<and> map_of posts k = Some p \<and> caller \<in> set (likes p) \<longrightarrow>
        ToggleLike cast caller pid posts =
          ([(200, Json_likes (filter (\<lambda>liker. liker \<noteq> caller) (likes p)))],
           save k (p\<lparr>likes := filter (\<lambda>liker. liker \<noteq> caller) (likes p)\<rparr>) posts)
        \<and> caller \<notin> set (filter (\<lambda>liker. liker \<noteq> caller) (likes p))"
    using ToggleLike_found [of cast pid k posts p caller] by simp
  from reach step kept unlike show ?thesis
    by blast
qed

text \<open>
  The theorem on a run in which u1 creates a post, u1 and u2 like it and u1 unlikes it,
  and on the post with \<^verbatim>\<open>likes\<close> [u2, u1]: a like by u2 again, a comment by u1, and a
  like by u1 again.
\<close>

theorem likes_at_most_once_witness:
  "likes_distinct (run (\<lambda>i. if length i = 2 then Some i else None)
       [(''u1'', \<lparr>user_name = ''Una'', user_avatar = ''una.png''\<rparr>)]
       [Req_CreatePost ''p1'' 7 ''u1'' ''hello'', Req_ToggleLike ''u1'' ''p1'',
        Req_ToggleLike ''u2'' ''p1'', Req_ToggleLike ''u1'' ''p1''] [])
   \<and> likes_distinct (snd (handle (\<lambda>i. if length i = 2 then Some i else None)
       [(''u1'', \<lparr>user_name = ''Una'', user_avatar = ''una.png''\<rparr>)]
       (Req_ToggleLike ''u2'' ''p1'')
       [(''p1'',
          \<lparr>post_text = ''hello'', post_name = ''Una'', post_avatar = ''una.png'',
            post_user = ''u1'', likes = [''u2'', ''u1''], comments = [], post_date = 7\<rparr>)]))
   \<and> map_of (snd (handle (\<lambda>i. if length i = 2 then Some i else None)
       [(''u1'', \<lparr>user_name = ''Una'', user_avatar = ''una.png''\<rparr>)]
       (Req_AddComment ''c1'' 8 ''u1'' ''p1'' ''nice'')
       [(''p1'',
          \<lparr>post_text = ''hello'', post_name = ''Una'', post_avatar = ''una.png'',
            post_user = ''u1'', likes = [''u2'', ''u1''], comments = [], post_date = 7\<rparr>)])) ''p1''
     = Some \<lparr>post_text = ''hello'', post_name = ''Una'', post_avatar = ''una.png'',
            post_user = ''u1'', likes = [''u2'', ''u1''],
            comments = [\<lparr>comment_id = ''c1'', comment_text = ''nice'', comment_name = ''Una'',
              comment_avatar = ''una.png'', comment_user = ''u1'', comment_date = 8\<rparr>],
            post_date = 7\<rparr>
   \<and> ToggleLike (\<lambda>i. if length i = 2 then Some i else None) ''u1'' ''p1''
       [(''p1'',
          \<lparr>post_text = ''hello'', post_name = ''Una'', post_avatar = ''una.png'',
            post_user = ''u1'', likes = [''u2'', ''u1''], comments = [], post_date = 7\<rparr>)]
     = ([(200, Json_likes [''u2''])],
        [(''p1'', \<lparr>post_text = ''hello'', post_name = ''Una'', post_avatar = ''una.png'',
                   post_user = ''u1'', likes = [''u2''], comments = [], post_date = 7\<rparr>)])"
  using
    likes_at_most_once [where cast = "\<lambda>i. if length i = 2 then Some i else None"
      and pid = "''p1''" and k = "''p1''"
      and caller = "''u1''"
      and users = "[(''u1'', \<lparr>user_name = ''Una'', user_avatar = ''una.png''\<rparr>)]"
      and reqs = "[Req_CreatePost ''p1'' 7 ''u1'' ''hello'', Req_ToggleLike ''u1'' ''p1'',
        Req_ToggleLike ''u2'' ''p1'', Req_ToggleLike ''u1'' ''p1'']"
      and r = "Req_ToggleLike ''u2'' ''p1''"
      and posts = "[(''p1'',
          \<lparr>post_text = ''hello'', post_name = ''Una'', post_avatar = ''una.png'',
            post_user = ''u1'', likes = [''u2'', ''u1''], comments = [], post_date = 7\<rparr>)]"
      and p = "\<lparr>post_text = ''hello'', post_name = ''Una'', post_avatar = ''una.png'',
            post_user = ''u1'', likes = [''u2'', ''u1''], comments = [], post_date = 7\<rparr>"]
    likes_at_most_once [where cast = "\<lambda>i. if length i = 2 then Some i else None"
      and pid = "''p1''" and k = "''p1''"
      and caller = "''u1''"
      and users = "[(''u1'', \<lparr>user_name = ''Una'', user_avatar = ''una.png''\<rparr>)]"
      and reqs = "[Req_CreatePost ''p1'' 7 ''u1'' ''hello'', Req_ToggleLike ''u1'' ''p1'',
        Req_ToggleLike ''u2'' ''p1'', Req_ToggleLike ''u1'' ''p1'']"
      and r = "Req_AddComment ''c1'' 8 ''u1'' ''p1'' ''nice''"
      and posts = "[(''p1'',
          \<lparr>post_text = ''hello'', post_name = ''Una'', post_avatar = ''una.png'',
            post_user = ''u1'', likes = [''u2'', ''u1''], comments = [], post_date = 7\<rparr>)]"
      and p = "\<lparr>post_text = ''hello'', post_name = ''Una'', post_avatar = ''una.png'',
            post_user = ''u1'', likes = [''u2'', ''u1''], comments = [], post_date = 7\<rparr>"
      and i = "''p1''"
      and q = "\<lparr>post_text = ''hello'', post_name = ''Una'', post_avatar = ''una.png'',
            post_user = ''u1'', likes = [''u2'', ''u1''],
            comments = [\<lparr>comment_id = ''c1'', comment_text = ''nice'', comment_name = ''Una'',
              comment_avatar = ''una.png'', comment_user = ''u1'', comment_date = 8\<rparr>],
            post_date = 7\<rparr>"]
  by (simp add: save_def likes_distinct_def AddComment_def AddComment_try_def
      validationResult_def findById_def Let_def)

subsection \<open>A post that is not stored\<close>

lemma AddComment_missing:
  "input \<noteq> [] \<Longrightarrow> cast pid = Some k \<Longrightarrow> map_of posts k = None \<Longrightarrow>
   AddComment cast users new_cid now caller pid input posts = ([server_error], posts)"
  by (simp add: AddComment_def AddComment_try_def validationResult_def findById_def
      split: option.splits)

text \<open>
  C3. The claim is that ToggleLike and AddComment answer NotFound for the id of no
  stored post. Unlike the handlers for reading and deleting, neither of the two tests
  the fetched post for \<^verbatim>\<open>null\<close>: for a well-formed id of no stored post (here on the
  empty collection) each sends the 500 response and nothing else.
\<close>

theorem missing_post_is_server_error:
  "ToggleLike (\<lambda>i. if length i = 2 then Some i else None) ''u1'' ''p9'' [] = ([(500, Send_text ''Server Error'')], [])
   \<and> AddComment (\<lambda>i. if length i = 2 then Some i else None)
        [(''u1'', \<lparr>user_name = ''Una'', user_avatar = ''una.png''\<rparr>)]
        ''c1'' 8 ''u1'' ''p9'' ''nice'' []
       = ([(500, Send_text ''Server Error'')], [])"
  by (simp add: ToggleLike_missing AddComment_missing server_error_def)

subsection \<open>Creating a post\<close>

text \<open>
  C4. CreatePost with the empty text sends status 400 with the array of validation
  errors and stores nothing. With a non-empty text, a caller found in the user store
  (the caller's id is the string of a stored user's id, as the token carries it) and a
  generated id that is not yet taken, it sends the new post, whose text is the
  input, whose name and avatar are the caller's stored ones, whose user is the caller's
  id and whose \<^verbatim>\<open>likes\<close> and \<^verbatim>\<open>comments\<close> are empty, and stores it under the new id.
\<close>

theorem CreatePost_spec:
  "CreatePost cast users new_id now caller [] posts =
     ([(400, Json_errors [\<lparr>param = ''text'', msg = ''Text is required''\<rparr>])], posts)
   \<and> (input \<noteq> [] \<and> cast caller = Some caller \<and> map_of users caller = Some usr
        \<and> map_of posts new_id = None \<longrightarrow>
      fst (CreatePost cast users new_id now caller input posts) =
        [(200, Json_post \<lparr>post_text = input, post_name = user_name usr,
                          post_avatar = user_avatar usr, post_user = caller,
                          likes = [], comments = [], post_date = now\<rparr>)]
      \<and> map_of (snd (CreatePost cast users new_id now caller input posts)) =
        (map_of posts)(new_id \<mapsto> \<lparr>post_text = input, post_name = user_name usr,
                          post_avatar = user_avatar usr, post_user = caller,
                          likes = [], comments = [], post_date = now\<rparr>))"
  by (simp add: CreatePost_def CreatePost_try_def validationResult_def findById_def
      insert_doc_def update_conv' Let_def)

text \<open>
  The theorem for user u1 creating the first post, with the text \<^verbatim>\<open>hello\<close>.
\<close>

theorem CreatePost_spec_witness:
  "CreatePost (\<lambda>i. if length i = 2 then Some i else None) [(''u1'', \<lparr>user_name = ''Una'', user_avatar = ''una.png''\<rparr>)]
     ''p1'' 7 ''u1'' [] []
     = ([(400, Json_errors [\<lparr>param = ''text'', msg = ''Text is required''\<rparr>])], [])
   \<and> fst (CreatePost (\<lambda>i. if length i = 2 then Some i else None)
        [(''u1'', \<lparr>user_name = ''Una'', user_avatar = ''una.png''\<rparr>)]
        ''p1'' 7 ''u1'' ''hello'' [])
     = [(200, Json_post \<lparr>post_text = ''hello'', post_name = ''Una'',
                          post_avatar = ''una.png'', post_user = ''u1'',
                          likes = [], comments = [], post_date = 7\<rparr>)]
   \<and> map_of (snd (CreatePost (\<lambda>i. if length i = 2 then Some i else None)
        [(''u1'', \<lparr>user_name = ''Una'', user_avatar = ''una.png''\<rparr>)]
        ''p1'' 7 ''u1'' ''hello'' [])) ''p1''
     = Some \<lparr>post_text = ''hello'', post_name = ''Una'',
                          post_avatar = ''una.png'', post_user = ''u1'',
                          likes = [], comments = [], post_date = 7\<rparr>"
  using CreatePost_spec [where cast = "\<lambda>i. if length i = 2 then Some i else None"
      and users = "[(''u1'', \<lparr>user_name = ''Una'', user_avatar = ''una.png''\<rparr>)]"
      and new_id = "''p1''" and now = "7" and caller = "''u1''" and input = "''hello''"
      and posts = "[]" and usr = "\<lparr>user_name = ''Una'', user_avatar = ''una.png''\<rparr>"]
  by simp

subsection \<open>Reading and deleting a post\<close>

lemma GetPost_found:
  "cast pid = Some k \<Longrightarrow> map_of posts k = Some p \<Longrightarrow>
   GetPost cast pid posts = ([(200, Json_post p)], posts)"
  by (simp add: GetPost_def GetPost_try_def findById_def)

lemma GetPost_absent:
  "cast pid = Some k \<Longrightarrow> map_of posts k = None \<Longrightarrow>
   GetPost cast pid posts = ([(404, Json_msg ''Post not found'')], posts)"
  by (simp add: GetPost_def GetPost_try_def findById_def)

lemma GetPost_malformed:
  "cast pid = None \<Longrightarrow>
   GetPost cast pid posts =
     ([(404, Json_msg ''Post not found''), (500, Send_text ''Server Error'')], posts)"
  by (simp add: GetPost_def GetPost_try_def GetPost_catch_def findById_def server_error_def)

lemma DeletePost_malformed:
  "cast pid = None \<Longrightarrow>
   DeletePost cast caller pid posts =
     ([(404, Json_msg ''Post not found''), (500, Send_text ''Server Error'')], posts)"
  by (simp add: DeletePost_def DeletePost_try_def DeletePost_catch_def findById_def
      server_error_def)

text \<open>
  C5. DeletePost answers 404 \<^verbatim>\<open>Post not found\<close> for a malformed id and for a string
  that denotes the id of no stored post, and the posts stay as they were (for a
  malformed id the 404 send is the first of two: the second, status 500, comes after
  the response has gone out). For a string that denotes the id of a stored post,
  whatever its spelling: when the post's owner is not the caller it answers 401 with a
  message and the post stays stored; for the owner it removes the post and answers with
  the confirmation, and GetPost on that id then answers 404.
\<close>

theorem DeletePost_spec:
  "(cast pid = None \<longrightarrow>
      delivered (fst (DeletePost cast caller pid posts)) = Some (404, Json_msg ''Post not found'')
      \<and> fst (DeletePost cast caller pid posts) =
          [(404, Json_msg ''Post not found''), (500, Send_text ''Server Error'')]
      \<and> snd (DeletePost cast caller pid posts) = posts)
   \<and> (cast pid = Some k \<and> map_of posts k = None \<longrightarrow>
      DeletePost cast caller pid posts = ([(404, Json_msg ''Post not found'')], posts))
   \<and> (cast pid = Some k \<and> map_of posts k = Some p \<and> post_user p \<noteq> caller \<longrightarrow>
      DeletePost cast caller pid posts = ([(401, Json_msg ''Not your post'')], posts))
   \<and> (cast pid = Some k \<and> map_of posts k = Some p \<and> post_user p = caller \<longrightarrow>
      DeletePost cast caller pid posts = ([(200, Json_msg ''Post deleted'')], remove k posts)
      \<and> map_of (remove k posts) = (map_of posts)(k := None)
      \<and> GetPost cast pid (remove k posts) =
          ([(404, Json_msg ''Post not found'')], remove k posts))"
proof -
  have malformed: "cast pid = None \<longrightarrow>
      delivered (fst (DeletePost cast caller pid posts)) = Some (404, Json_msg ''Post not found'')
      \<and> fst (DeletePost cast caller pid posts) =
          [(404, Json_msg ''Post not found''), (500, Send_text ''Server Error'')]
      \<and> snd (DeletePost cast caller pid posts) = posts"
    by (simp add: DeletePost_malformed delivered_def)
  have absent: "cast pid = Some k \<and> map_of posts k = None \<longrightarrow>
      DeletePost cast caller pid posts = ([(404, Json_msg ''Post not found'')], posts)"
    by (simp add: DeletePost_def DeletePost_try_def findById_def)
  have other: "cast pid = Some k \<and> map_of posts k = Some p \<and> post_user p \<noteq> caller \<longrightarrow>
      DeletePost cast caller pid posts = ([(401, Json_msg ''Not your post'')], posts)"
    by (simp add: DeletePost_def DeletePost_try_def findById_def)
  have owner: "cast pid = Some k \<and> map_of posts k = Some p \<and> post_user p = caller \<longrightarrow>
      DeletePost cast caller pid posts = ([(200, Json_msg ''Post deleted'')], remove k posts)
      \<and> map_of (remove k posts) = (map_of posts)(k := None)
      \<and> GetPost cast pid (remove k posts) =
          ([(404, Json_msg ''Post not found'')], remove k posts)"
    by (simp add: DeletePost_def DeletePost_try_def findById_def map_of_remove GetPost_absent)
  from malformed absent other owner show ?thesis
    by blast
qed

text \<open>
  The theorem on a collection with the one post p1 of user u1, for a driver that reads
  \<^verbatim>\<open>P1\<close> as another spelling of the id p1: the malformed id \<^verbatim>\<open>zzz\<close>, the absent id
  p9, the caller u2, and the owner u1 asking under the spelling \<^verbatim>\<open>P1\<close>.
\<close>

theorem DeletePost_spec_witness:
  "delivered (fst (DeletePost
      (\<lambda>i. if i = ''P1'' then Some ''p1'' else if length i = 2 then Some i else None)
      ''u1'' ''zzz''
      [(''p1'',
        \<lparr>post_text = ''hello'', post_name = ''Una'', post_avatar = ''una.png'',
          post_user = ''u1'', likes = [], comments = [], post_date = 7\<rparr>)]))
     = Some (404, Json_msg ''Post not found'')
   \<and> DeletePost
      (\<lambda>i. if i = ''P1'' then Some ''p1'' else if length i = 2 then Some i else None)
      ''u1'' ''p9''
      [(''p1'',
        \<lparr>post_text = ''hello'', post_name = ''Una'', post_avatar = ''una.png'',
          post_user = ''u1'', likes = [], comments = [], post_date = 7\<rparr>)]
     = ([(404, Json_msg ''Post not found'')],
      [(''p1'',
        \<lparr>post_text = ''hello'', post_name = ''Una'', post_avatar = ''una.png'',
          post_user = ''u1'', likes = [], comments = [], post_date = 7\<rparr>)])
   \<and> DeletePost
      (\<lambda>i. if i = ''P1'' then Some ''p1'' else if length i = 2 then Some i else None)
      ''u2'' ''p1''
      [(''p1'',
        \<lparr>post_text = ''hello'', post_name = ''Una'', post_avatar = ''una.png'',
          post_user = ''u1'', likes = [], comments = [], post_date = 7\<rparr>)]
     = ([(401, Json_msg ''Not your post'')],
      [(''p1'',
        \<lparr>post_text = ''hello'', post_name = ''Una'', post_avatar = ''una.png'',
          post_user = ''u1'', likes = [], comments = [], post_date = 7\<rparr>)])
   \<and> DeletePost
      (\<lambda>i. if i = ''P1'' then Some ''p1'' else if length i = 2 then Some i else None)
      ''u1'' ''P1''
      [(''p1'',
        \<lparr>post_text = ''hello'', post_name = ''Una'', post_avatar = ''una.png'',
          post_user = ''u1'', likes = [], comments = [], post_date = 7\<rparr>)]
     = ([(200, Json_msg ''Post deleted'')], [])
   \<and> GetPost
      (\<lambda>i. if i = ''P1'' then Some ''p1'' else if length i = 2 then Some i else None)
      ''P1'' []
     = ([(404, Json_msg ''Post not found'')], [])"
  using
    DeletePost_spec [where cast = "\<lambda>i. if i = ''P1'' then Some ''p1'' else if length i = 2 then Some i else None"
      and caller = "''u1''" and pid = "''zzz''"
      and posts = "[(''p1'',
        \<lparr>post_text = ''hello'', post_name = ''Una'', post_avatar = ''una.png'',
          post_user = ''u1'', likes = [], comments = [], post_date = 7\<rparr>)]"]
    DeletePost_spec [where cast = "\<lambda>i. if i = ''P1'' then Some ''p1'' else if length i = 2 then Some i else None"
      and caller = "''u1''" and pid = "''p9''" and k = "''p9''"
      and posts = "[(''p1'',
        \<lparr>post_text = ''hello'', post_name = ''Una'', post_avatar = ''una.png'',
          post_user = ''u1'', likes = [], comments = [], post_date = 7\<rparr>)]"]
    DeletePost_spec [where cast = "\<lambda>i. if i = ''P1'' then Some ''p1'' else if length i = 2 then Some i else None"
      and caller = "''u2''" and pid = "''p1''" and k = "''p1''"
      and posts = "[(''p1'',
        \<lparr>post_text = ''hello'', post_name = ''Una'', post_avatar = ''una.png'',
          post_user = ''u1'', likes = [], comments = [], post_date = 7\<rparr>)]"
      and p = "\<lparr>post_text = ''hello'', post_name = ''Una'', post_avatar = ''una.png'',
          post_user = ''u1'', likes = [], comments = [], post_date = 7\<rparr>"]
    DeletePost_spec [where cast = "\<lambda>i. if i = ''P1'' then Some ''p1'' else if length i = 2 then Some i else None"
      and caller = "''u1''" and pid = "''P1''" and k = "''p1''"
      and posts = "[(''p1'',
        \<lparr>post_text = ''hello'', post_name = ''Una'', post_avatar = ''una.png'',
          post_user = ''u1'', likes = [], comments = [], post_date = 7\<rparr>)]"
      and p = "\<lparr>post_text = ''hello'', post_name = ''Una'', post_avatar = ''una.png'',
          post_user = ''u1'', likes = [], comments = [], post_date = 7\<rparr>"]
  by (simp add: remove_def delivered_def)

text \<open>
  C8. The claim is that GetPost sends the stored post for the id of a stored post and
  404 \<^verbatim>\<open>Post not found\<close> for an absent or malformed id, with no other status produced
  in the malformed case. The first two parts hold (lemmas \<open>GetPost_found\<close> and
  \<open>GetPost_absent\<close>). For a malformed id the catch block sends the 404 and, having no
  return after it, goes on to send status 500.
\<close>

theorem GetPost_malformed_sends_500:
  "GetPost (\<lambda>i. if length i = 2 then Some i else None) ''zzz'' [] =
     ([(404, Json_msg ''Post not found''), (500, Send_text ''Server Error'')], [])"
  by (simp add: GetPost_malformed)

text \<open>
  C10. In GetPost and in DeletePost, the catch block on an error of kind \<^verbatim>\<open>ObjectId\<close>
  sends the 404 response and then the 500 response: two sends for one request. The
  lookup of a malformed id throws such an error, so both handlers make the two sends
  there.
\<close>

theorem catch_sends_twice:
  "(kind err = Some ''ObjectId'' \<longrightarrow>
      GetPost_catch err = [(404, Json_msg ''Post not found''), (500, Send_text ''Server Error'')]
      \<and> DeletePost_catch err =
          [(404, Json_msg ''Post not found''), (500, Send_text ''Server Error'')])
   \<and> (cast pid = None \<longrightarrow>
      GetPost_try cast pid posts = Inl (CastError ''ObjectId'')
      \<and> DeletePost_try cast caller pid posts = Inl (CastError ''ObjectId'')
      \<and> fst (GetPost cast pid posts) =
          [(404, Json_msg ''Post not found''), (500, Send_text ''Server Error'')]
      \<and> fst (DeletePost cast caller pid posts) =
          [(404, Json_msg ''Post not found''), (500, Send_text ''Server Error'')])"
  by (simp add: GetPost_catch_def DeletePost_catch_def server_error_def GetPost_malformed
      DeletePost_malformed GetPost_try_def DeletePost_try_def findById_def)

text \<open>
  The theorem at the cast error and at the malformed id \<^verbatim>\<open>zzz\<close>.
\<close>

theorem catch_sends_twice_witness:
  "GetPost_catch (CastError ''ObjectId'') =
      [(404, Json_msg ''Post not found''), (500, Send_text ''Server Error'')]
   \<and> DeletePost_catch (CastError ''ObjectId'') =
      [(404, Json_msg ''Post not found''), (500, Send_text ''Server Error'')]
   \<and> fst (GetPost (\<lambda>i. if length i = 2 then Some i else None) ''zzz'' []) =
      [(404, Json_msg ''Post not found''), (500, Send_text ''Server Error'')]
   \<and> fst (DeletePost (\<lambda>i. if length i = 2 then Some i else None) ''u1'' ''zzz'' []) =
      [(404, Json_msg ''Post not found''), (500, Send_text ''Server Error'')]"
  using catch_sends_twice [where err = "CastError ''ObjectId''" and cast = "\<lambda>i. if length i = 2 then Some i else None"
      and pid = "''zzz''" and caller = "''u1''" and posts = "[]"]
  by simp

subsection \<open>Deleting a comment\<close>

lemma DeleteComment_found:
  assumes "cast p_id = Some k" and "map_of posts k = Some p"
  shows "DeleteComment cast caller p_id c_id posts =
     (if length (filter (\<lambda>cmt. comment_id cmt = c_id) (comments p)) \<noteq> 1
      then ([(404, Json_msg ''Comment not found'')], posts)
      else if comment_user (filter (\<lambda>cmt. comment_id cmt = c_id) (comments p) ! 0) \<noteq> caller
      then ([(401, Json_msg ''Not your comment'')], posts)
      else ([(200, Json_msg ''Comment deleted'')],
            save k (p\<lparr>comments := filter (\<lambda>cmt. comment_id cmt \<noteq> c_id) (comments p)\<rparr>)
              posts))"
  using assms
  by (simp add: DeleteComment_def DeleteComment_try_def findById_def Let_def)

text \<open>
  C6. DeleteComment answers 404 when the post is missing: with \<^verbatim>\<open>Couldn't locate
  resource\<close> for a malformed post id (the first of two sends: the 500 send follows it),
  and with \<^verbatim>\<open>Post not found\<close> when the string denotes the id of no stored post. For
  a string that denotes the id of a stored post, whatever its spelling, it answers 404
  \<^verbatim>\<open>Comment not found\<close> when the number of the post's comments with the given comment
  id is not one; 401 when the one matching comment belongs to another user; and
  otherwise stores the post without any comment of that id and answers with the
  confirmation.
\<close>

theorem DeleteComment_spec:
  "(cast p_id = None \<longrightarrow>
      DeleteComment cast caller p_id c_id posts =
        ([(404, Json_msg ''Couldn't locate resource''), (500, Send_text ''Server Error'')],
         posts)
      \<and> delivered (fst (DeleteComment cast caller p_id c_id posts)) =
          Some (404, Json_msg ''Couldn't locate resource''))
   \<and> (cast p_id = Some k \<and> map_of posts k = None \<longrightarrow>
      DeleteComment cast caller p_id c_id posts = ([(404, Json_msg ''Post not found'')], posts))
   \<and> (cast p_id = Some k \<and> map_of posts k = Some p
        \<and> length (filter (\<lambda>cmt. comment_id cmt = c_id) (comments p)) \<noteq> 1 \<longrightarrow>
      DeleteComment cast caller p_id c_id posts =
        ([(404, Json_msg ''Comment not found'')], posts))
   \<and> (cast p_id = Some k \<and> map_of posts k = Some p
        \<and> filter (\<lambda>cmt. comment_id cmt = c_id) (comments p) = [c]
        \<and> comment_user c \<noteq> caller \<longrightarrow>
      DeleteComment cast caller p_id c_id posts =
        ([(401, Json_msg ''Not your comment'')], posts))
   \<and> (cast p_id = Some k \<and> map_of posts k = Some p
        \<and> filter (\<lambda>cmt. comment_id cmt = c_id) (comments p) = [c]
        \<and> comment_user c = caller \<longrightarrow>
      DeleteComment cast caller p_id c_id posts =
        ([(200, Json_msg ''Comment deleted'')],
         save k (p\<lparr>comments := filter (\<lambda>cmt. comment_id cmt \<noteq> c_id) (comments p)\<rparr>) posts)
      \<and> map_of (save k
            (p\<lparr>comments := filter (\<lambda>cmt. comment_id cmt \<noteq> c_id) (comments p)\<rparr>) posts) k =
          Some (p\<lparr>comments := filter (\<lambda>cmt. comment_id cmt \<noteq> c_id) (comments p)\<rparr>)
      \<and> c_id \<notin> comment_id ` set (filter (\<lambda>cmt. comment_id cmt \<noteq> c_id) (comments p)))"
proof -
  have malformed: "cast p_id = None \<longrightarrow>
      DeleteComment cast caller p_id c_id posts =
        ([(404, Json_msg ''Couldn't locate resource''), (500, Send_text ''Server Error'')],
         posts)
      \<and> delivered (fst (DeleteComment cast caller p_id c_id posts)) =
          Some (404, Json_msg ''Couldn't locate resource'')"
    by (simp add: DeleteComment_def DeleteComment_try_def DeleteComment_catch_def findById_def
        server_error_def delivered_def)
  have missing: "cast p_id = Some k \<and> map_of posts k = None \<longrightarrow>
      DeleteComment cast caller p_id c_id posts = ([(404, Json_msg ''Post not found'')], posts)"
    by (simp add: DeleteComment_def DeleteComment_try_def findById_def)
  have count: "cast p_id = Some k \<and> map_of posts k = Some p
        \<and> length (filter (\<lambda>cmt. comment_id cmt = c_id) (comments p)) \<noteq> 1 \<longrightarrow>
      DeleteComment cast caller p_id c_id posts =
        ([(404, Json_msg ''Comment not found'')], posts)"
    using DeleteComment_found [of cast p_id k posts p caller c_id] by simp
  have other: "cast p_id = Some k \<and> map_of posts k = Some p
        \<and> filter (\<lambda>cmt. comment_id cmt = c_id) (comments p) = [c]
        \<and> comment_user c \<noteq> caller \<longrightarrow>
      DeleteComment cast caller p_id c_id posts =
        ([(401, Json_msg ''Not your comment'')], posts)"
    using DeleteComment_found [of cast p_id k posts p caller c_id] by simp
  have owner: "cast p_id = Some k \<and> map_of posts k = Some p
        \<and> filter (\<lambda>cmt. comment_id cmt = c_id) (comments p) = [c]
        \<and> comment_user c = caller \<longrightarrow>
      DeleteComment cast caller p_id c_id posts =
        ([(200, Json_msg ''Comment deleted'')],
         save k (p\<lparr>comments := filter (\<lambda>cmt. comment_id cmt \<noteq> c_id) (comments p)\<rparr>) posts)
      \<and> map_of (save k
            (p\<lparr>comments := filter (\<lambda>cmt. comment_id cmt \<noteq> c_id) (comments p)\<rparr>) posts) k =
          Some (p\<lparr>comments := filter (\<lambda>cmt. comment_id cmt \<noteq> c_id) (comments p)\<rparr>)
      \<and> c_id \<notin> comment_id ` set (filter (\<lambda>cmt. comment_id cmt \<noteq> c_id) (comments p))"
    using DeleteComment_found [of cast p_id k posts p caller c_id]
    by (auto simp: map_of_save)
  from malformed missing count other owner show ?thesis
    by blast
qed

text \<open>
  The theorem on the post p1 of user u1, for a driver that reads \<^verbatim>\<open>P1\<close> as another
  spelling of the id p1: the malformed post id \<^verbatim>\<open>zzz\<close>; the absent post p9; the
  comment id c9 of no comment; the comment id c2 held by two comments; the comment c1
  of u1 asked for by u2; and c1 asked for by u1 under the spelling \<^verbatim>\<open>P1\<close>, which
  leaves the comment c2.
\<close>

theorem DeleteComment_spec_witness:
  "DeleteComment
      (\<lambda>i. if i = ''P1'' then Some ''p1'' else if length i = 2 then Some i else None)
      ''u1'' ''zzz'' ''c1''
      [(''p1'',
        \<lparr>post_text = ''hello'', post_name = ''Una'', post_avatar = ''una.png'',
          post_user = ''u1'', likes = [],
          comments =
            [\<lparr>comment_id = ''c1'', comment_text = ''nice'', comment_name = ''Una'',
             comment_avatar = ''una.png'', comment_user = ''u1'', comment_date = 8\<rparr>],
          post_date = 7\<rparr>)]
     = ([(404, Json_msg ''Couldn't locate resource''), (500, Send_text ''Server Error'')],
      [(''p1'',
        \<lparr>post_text = ''hello'', post_name = ''Una'', post_avatar = ''una.png'',
          post_user = ''u1'', likes = [],
          comments =
            [\<lparr>comment_id = ''c1'', comment_text = ''nice'', comment_name = ''Una'',
             comment_avatar = ''una.png'', comment_user = ''u1'', comment_date = 8\<rparr>],
          post_date = 7\<rparr>)])
   \<and> DeleteComment
      (\<lambda>i. if i = ''P1'' then Some ''p1'' else if length i = 2 then Some i else None)
      ''u1'' ''p9'' ''c1''
      []
     = ([(404, Json_msg ''Post not found'')], [])
   \<and> DeleteComment
      (\<lambda>i. if i = ''P1'' then Some ''p1'' else if length i = 2 then Some i else None)
      ''u1'' ''p1'' ''c9''
      [(''p1'',
        \<lparr>post_text = ''hello'', post_name = ''Una'', post_avatar = ''una.png'',
          post_user = ''u1'', likes = [], comments = [], post_date = 7\<rparr>)]
     = ([(404, Json_msg ''Comment not found'')],
      [(''p1'',
        \<lparr>post_text = ''hello'', post_name = ''Una'', post_avatar = ''una.png'',
          post_user = ''u1'', likes = [], comments = [], post_date = 7\<rparr>)])
   \<and> DeleteComment
      (\<lambda>i. if i = ''P1'' then Some ''p1'' else if length i = 2 then Some i else None)
      ''u2'' ''p1'' ''c2''
      [(''p1'',
        \<lparr>post_text = ''hello'', post_name = ''Una'', post_avatar = ''una.png'',
          post_user = ''u1'', likes = [],
          comments =
            [\<lparr>comment_id = ''c2'', comment_text = ''well'', comment_name = ''Ann'',
             comment_avatar = ''ann.png'', comment_user = ''u2'', comment_date = 9\<rparr>,
             \<lparr>comment_id = ''c2'', comment_text = ''well'', comment_name = ''Ann'',
             comment_avatar = ''ann.png'', comment_user = ''u2'', comment_date = 9\<rparr>],
          post_date = 7\<rparr>)]
     = ([(404, Json_msg ''Comment not found'')],
      [(''p1'',
        \<lparr>post_text = ''hello'', post_name = ''Una'', post_avatar = ''una.png'',
          post_user = ''u1'', likes = [],
          comments =
            [\<lparr>comment_id = ''c2'', comment_text = ''well'', comment_name = ''Ann'',
             comment_avatar = ''ann.png'', comment_user = ''u2'', comment_date = 9\<rparr>,
             \<lparr>comment_id = ''c2'', comment_text = ''well'', comment_name = ''Ann'',
             comment_avatar = ''ann.png'', comment_user = ''u2'', comment_date = 9\<rparr>],
          post_date = 7\<rparr>)])
   \<and> DeleteComment
      (\<lambda>i. if i = ''P1'' then Some ''p1'' else if length i = 2 then Some i else None)
      ''u2'' ''p1'' ''c1''
      [(''p1'',
        \<lparr>post_text = ''hello'', post_name = ''Una'', post_avatar = ''una.png'',
          post_user = ''u1'', likes = [],
          comments =
            [\<lparr>comment_id = ''c1'', comment_text = ''nice'', comment_name = ''Una'',
             comment_avatar = ''una.png'', comment_user = ''u1'', comment_date = 8\<rparr>],
          post_date = 7\<rparr>)]
     = ([(401, Json_msg ''Not your comment'')],
      [(''p1'',
        \<lparr>post_text = ''hello'', post_name = ''Una'', post_avatar = ''una.png'',
          post_user = ''u1'', likes = [],
          comments =
            [\<lparr>comment_id = ''c1'', comment_text = ''nice'', comment_name = ''Una'',
             comment_avatar = ''una.png'', comment_user = ''u1'', comment_date = 8\<rparr>],
          post_date = 7\<rparr>)])
   \<and> DeleteComment
      (\<lambda>i. if i = ''P1'' then Some ''p1'' else if length i = 2 then Some i else None)
      ''u1'' ''P1'' ''c1''
      [(''p1'',
        \<lparr>post_text = ''hello'', post_name = ''Una'', post_avatar = ''una.png'',
          post_user = ''u1'', likes = [],
          comments =
            [\<lparr>comment_id = ''c1'', comment_text = ''nice'', comment_name = ''Una'',
             comment_avatar = ''una.png'', comment_user = ''u1'', comment_date = 8\<rparr>,
             \<lparr>comment_id = ''c2'', comment_text = ''well'', comment_name = ''Ann'',
             comment_avatar = ''ann.png'', comment_user = ''u2'', comment_date = 9\<rparr>],
          post_date = 7\<rparr>)]
     = ([(200, Json_msg ''Comment deleted'')],
      [(''p1'',
        \<lparr>post_text = ''hello'', post_name = ''Una'', post_avatar = ''una.png'',
          post_user = ''u1'', likes = [],
          comments =
            [\<lparr>comment_id = ''c2'', comment_text = ''well'', comment_name = ''Ann'',
             comment_avatar = ''ann.png'', comment_user = ''u2'', comment_date = 9\<rparr>],
          post_date = 7\<rparr>)])"
  using
    DeleteComment_spec [where cast = "\<lambda>i. if i = ''P1'' then Some ''p1'' else if length i = 2 then Some i else None"
      and caller = "''u1''" and p_id = "''zzz''" and c_id = "''c1''"
      and posts = "[(''p1'',
        \<lparr>post_text = ''hello'', post_name = ''Una'', post_avatar = ''una.png'',
          post_user = ''u1'', likes = [],
          comments =
            [\<lparr>comment_id = ''c1'', comment_text = ''nice'', comment_name = ''Una'',
             comment_avatar = ''una.png'', comment_user = ''u1'', comment_date = 8\<rparr>],
          post_date = 7\<rparr>)]"]
    DeleteComment_spec [where cast = "\<lambda>i. if i = ''P1'' then Some ''p1'' else if length i = 2 then Some i else None"
      and caller = "''u1''" and p_id = "''p9''" and c_id = "''c1''" and k = "''p9''"
      and posts = "[]"]
    DeleteComment_spec [where cast = "\<lambda>i. if i = ''P1'' then Some ''p1'' else if length i = 2 then Some i else None"
      and caller = "''u1''" and p_id = "''p1''" and c_id = "''c9''" and k = "''p1''"
      and posts = "[(''p1'',
        \<lparr>post_text = ''hello'', post_name = ''Una'', post_avatar = ''una.png'',
          post_user = ''u1'', likes = [], comments = [], post_date = 7\<rparr>)]"
      and p = "\<lparr>post_text = ''hello'', post_name = ''Una'', post_avatar = ''una.png'',
          post_user = ''u1'', likes = [], comments = [], post_date = 7\<rparr>"]
    DeleteComment_spec [where cast = "\<lambda>i. if i = ''P1'' then Some ''p1'' else if length i = 2 then Some i else None"
      and caller = "''u2''" and p_id = "''p1''" and c_id = "''c2''" and k = "''p1''"
      and posts = "[(''p1'',
        \<lparr>post_text = ''hello'', post_name = ''Una'', post_avatar = ''una.png'',
          post_user = ''u1'', likes = [],
          comments =
            [\<lparr>comment_id = ''c2'', comment_text = ''well'', comment_name = ''Ann'',
             comment_avatar = ''ann.png'', comment_user = ''u2'', comment_date = 9\<rparr>,
             \<lparr>comment_id = ''c2'', comment_text = ''well'', comment_name = ''Ann'',
             comment_avatar = ''ann.png'', comment_user = ''u2'', comment_date = 9\<rparr>],
          post_date = 7\<rparr>)]"
      and p = "\<lparr>post_text = ''hello'', post_name = ''Una'', post_avatar = ''una.png'',
          post_user = ''u1'', likes = [],
          comments =
            [\<lparr>comment_id = ''c2'', comment_text = ''well'', comment_name = ''Ann'',
             comment_avatar = ''ann.png'', comment_user = ''u2'', comment_date = 9\<rparr>,
             \<lparr>comment_id = ''c2'', comment_text = ''well'', comment_name = ''Ann'',
             comment_avatar = ''ann.png'', comment_user = ''u2'', comment_date = 9\<rparr>],
          post_date = 7\<rparr>"]
    DeleteComment_spec [where cast = "\<lambda>i. if i = ''P1'' then Some ''p1'' else if length i = 2 then Some i else None"
      and caller = "''u2''" and p_id = "''p1''" and c_id = "''c1''" and k = "''p1''"
      and posts = "[(''p1'',
        \<lparr>post_text = ''hello'', post_name = ''Una'', post_avatar = ''una.png'',
          post_user = ''u1'', likes = [],
          comments =
            [\<lparr>comment_id = ''c1'', comment_text = ''nice'', comment_name = ''Una'',
             comment_avatar = ''una.png'', comment_user = ''u1'', comment_date = 8\<rparr>],
          post_date = 7\<rparr>)]"
      and p = "\<lparr>post_text = ''hello'', post_name = ''Una'', post_avatar = ''una.png'',
          post_user = ''u1'', likes = [],
          comments =
            [\<lparr>comment_id = ''c1'', comment_text = ''nice'', comment_name = ''Una'',
             comment_avatar = ''una.png'', comment_user = ''u1'', comment_date = 8\<rparr>],
          post_date = 7\<rparr>"
      and c = "\<lparr>comment_id = ''c1'', comment_text = ''nice'', comment_name = ''Una'',
             comment_avatar = ''una.png'', comment_user = ''u1'', comment_date = 8\<rparr>"]
    DeleteComment_spec [where cast = "\<lambda>i. if i = ''P1'' then Some ''p1'' else if length i = 2 then Some i else None"
      and caller = "''u1''" and p_id = "''P1''" and c_id = "''c1''" and k = "''p1''"
      and posts = "[(''p1'',
        \<lparr>post_text = ''hello'', post_name = ''Una'', post_avatar = ''una.png'',
          post_user = ''u1'', likes = [],
          comments =
            [\<lparr>comment_id = ''c1'', comment_text = ''nice'', comment_name = ''Una'',
             comment_avatar = ''una.png'', comment_user = ''u1'', comment_date = 8\<rparr>,
             \<lparr>comment_id = ''c2'', comment_text = ''well'', comment_name = ''Ann'',
             comment_avatar = ''ann.png'', comment_user = ''u2'', comment_date = 9\<rparr>],
          post_date = 7\<rparr>)]"
      and p = "\<lparr>post_text = ''hello'', post_name = ''Una'', post_avatar = ''una.png'',
          post_user = ''u1'', likes = [],
          comments =
            [\<lparr>comment_id = ''c1'', comment_text = ''nice'', comment_name = ''Una'',
             comment_avatar = ''una.png'', comment_user = ''u1'', comment_date = 8\<rparr>,
             \<lparr>comment_id = ''c2'', comment_text = ''well'', comment_name = ''Ann'',
             comment_avatar = ''ann.png'', comment_user = ''u2'', comment_date = 9\<rparr>],
          post_date = 7\<rparr>"
      and c = "\<lparr>comment_id = ''c1'', comment_text = ''nice'', comment_name = ''Una'',
             comment_avatar = ''una.png'', comment_user = ''u1'', comment_date = 8\<rparr>"]
  by (simp add: save_def)

text \<open>
  C7. For a stored post and a comment id that none of its comments has, DeleteComment
  answers 404 \<^verbatim>\<open>Comment not found\<close> and the stored posts, hence the post's comments,
  are unchanged.
\<close>

theorem DeleteComment_no_match:
  "cast p_id = Some k \<and> map_of posts k = Some p
     \<and> (\<forall>cmt \<in> set (comments p). comment_id cmt \<noteq> c_id) \<longrightarrow>
   DeleteComment cast caller p_id c_id posts = ([(404, Json_msg ''Comment not found'')], posts)"
proof (intro impI)
  assume h: "cast p_id = Some k \<and> map_of posts k = Some p
     \<and> (\<forall>cmt \<in> set (comments p). comment_id cmt \<noteq> c_id)"
  then have "filter (\<lambda>cmt. comment_id cmt = c_id) (comments p) = []"
    by (simp add: filter_empty_conv)
  with h show "DeleteComment cast caller p_id c_id posts =
      ([(404, Json_msg ''Comment not found'')], posts)"
    using DeleteComment_found [of cast p_id k posts p caller c_id] by simp
qed

text \<open>
  The theorem on the post p1 with the one comment c1, and the comment id c9.
\<close>

theorem DeleteComment_no_match_witness:
  "DeleteComment (\<lambda>i. if length i = 2 then Some i else None) ''u1'' ''p1'' ''c9''
      [(''p1'',
        \<lparr>post_text = ''hello'', post_name = ''Una'', post_avatar = ''una.png'',
          post_user = ''u1'', likes = [],
          comments =
            [\<lparr>comment_id = ''c1'', comment_text = ''nice'', comment_name = ''Una'',
             comment_avatar = ''una.png'', comment_user = ''u1'', comment_date = 8\<rparr>],
          post_date = 7\<rparr>)]
     = ([(404, Json_msg ''Comment not found'')],
      [(''p1'',
        \<lparr>post_text = ''hello'', post_name = ''Una'', post_avatar = ''una.png'',
          post_user = ''u1'', likes = [],
          comments =
            [\<lparr>comment_id = ''c1'', comment_text = ''nice'', comment_name = ''Una'',
             comment_avatar = ''una.png'', comment_user = ''u1'', comment_date = 8\<rparr>],
          post_date = 7\<rparr>)])"
  using DeleteComment_no_match [where cast = "\<lambda>i. if length i = 2 then Some i else None" and caller = "''u1''"
      and p_id = "''p1''" and c_id = "''c9''" and k = "''p1''"
      and posts = "[(''p1'',
        \<lparr>post_text = ''hello'', post_name = ''Una'', post_avatar = ''una.png'',
          post_user = ''u1'', likes = [],
          comments =
            [\<lparr>comment_id = ''c1'', comment_text = ''nice'', comment_name = ''Una'',
             comment_avatar = ''una.png'', comment_user = ''u1'', comment_date = 8\<rparr>],
          post_date = 7\<rparr>)]"
      and p = "\<lparr>post_text = ''hello'', post_name = ''Una'', post_avatar = ''una.png'',
          post_user = ''u1'', likes = [],
          comments =
            [\<lparr>comment_id = ''c1'', comment_text = ''nice'', comment_name = ''Una'',
             comment_avatar = ''una.png'', comment_user = ''u1'', comment_date = 8\<rparr>],
          post_date = 7\<rparr>"]
  by simp

subsection \<open>Adding a comment\<close>

text \<open>
  C9. AddComment with the empty text sends status 400 with the validation errors and
  leaves the posts unchanged. With a non-empty text, a caller found in the user store
  (the caller's id is the string of a stored user's id, as the token carries it) and a
  string that denotes the id of a stored post, it builds the comment from the input
  text, the caller's stored
  name and avatar and the caller's id, puts it at the head of the post's comments,
  stores the post, and sends the new comment list, the new comment first.
\<close>

theorem AddComment_spec:
  "AddComment cast users new_cid now caller pid [] posts =
     ([(400, Json_errors [\<lparr>param = ''text'', msg = ''Text is required''\<rparr>])], posts)
   \<and> (input \<noteq> [] \<and> cast caller = Some caller \<and> map_of users caller = Some usr
        \<and> cast pid = Some k \<and> map_of posts k = Some p \<longrightarrow>
      AddComment cast users new_cid now caller pid input posts =
        ([(200, Json_comments
             (\<lparr>comment_id = new_cid, comment_text = input, comment_name = user_name usr,
               comment_avatar = user_avatar usr, comment_user = caller, comment_date = now\<rparr>
              # comments p))],
         save k (p\<lparr>comments :=
             \<lparr>comment_id = new_cid, comment_text = input, comment_name = user_name usr,
               comment_avatar = user_avatar usr, comment_user = caller, comment_date = now\<rparr>
              # comments p\<rparr>) posts)
      \<and> map_of (snd (AddComment cast users new_cid now caller pid input posts)) k =
          Some (p\<lparr>comments :=
             \<lparr>comment_id = new_cid, comment_text = input, comment_name = user_name usr,
               comment_avatar = user_avatar usr, comment_user = caller, comment_date = now\<rparr>
              # comments p\<rparr>))"
  by (simp add: AddComment_def AddComment_try_def validationResult_def findById_def Let_def
      map_of_save)

text \<open>
  The theorem for user u1 commenting on the post p1, which has one comment of u2.
\<close>

theorem AddComment_spec_witness:
  "AddComment (\<lambda>i. if length i = 2 then Some i else None) [(''u1'', \<lparr>user_name = ''Una'', user_avatar = ''una.png''\<rparr>)]
       ''c3'' 11 ''u1'' ''p1'' []
       [(''p1'',
        \<lparr>post_text = ''hello'', post_name = ''Una'', post_avatar = ''una.png'',
          post_user = ''u1'', likes = [],
          comments =
           [\<lparr>comment_id = ''c2'', comment_text = ''well'', comment_name = ''Ann'',
            comment_avatar = ''ann.png'', comment_user = ''u2'', comment_date = 9\<rparr>],
          post_date = 7\<rparr>)]
     = ([(400, Json_errors [\<lparr>param = ''text'', msg = ''Text is required''\<rparr>])],
       [(''p1'',
        \<lparr>post_text = ''hello'', post_name = ''Una'', post_avatar = ''una.png'',
          post_user = ''u1'', likes = [],
          comments =
           [\<lparr>comment_id = ''c2'', comment_text = ''well'', comment_name = ''Ann'',
            comment_avatar = ''ann.png'', comment_user = ''u2'', comment_date = 9\<rparr>],
          post_date = 7\<rparr>)])
   \<and> AddComment (\<lambda>i. if length i = 2 then Some i else None) [(''u1'', \<lparr>user_name = ''Una'', user_avatar = ''una.png''\<rparr>)]
       ''c3'' 11 ''u1'' ''p1'' ''nice''
       [(''p1'',
        \<lparr>post_text = ''hello'', post_name = ''Una'', post_avatar = ''una.png'',
          post_user = ''u1'', likes = [],
          comments =
           [\<lparr>comment_id = ''c2'', comment_text = ''well'', comment_name = ''Ann'',
            comment_avatar = ''ann.png'', comment_user = ''u2'', comment_date = 9\<rparr>],
          post_date = 7\<rparr>)]
     = ([(200, Json_comments
           [\<lparr>comment_id = ''c3'', comment_text = ''nice'', comment_name = ''Una'',
            comment_avatar = ''una.png'', comment_user = ''u1'', comment_date = 11\<rparr>,
            \<lparr>comment_id = ''c2'', comment_text = ''well'', comment_name = ''Ann'',
            comment_avatar = ''ann.png'', comment_user = ''u2'', comment_date = 9\<rparr>])],
       [(''p1'',
        \<lparr>post_text = ''hello'', post_name = ''Una'', post_avatar = ''una.png'',
          post_user = ''u1'', likes = [],
          comments =
           [\<lparr>comment_id = ''c3'', comment_text = ''nice'', comment_name = ''Una'',
            comment_avatar = ''una.png'', comment_user = ''u1'', comment_date = 11\<rparr>,
            \<lparr>comment_id = ''c2'', comment_text = ''well'', comment_name = ''Ann'',
            comment_avatar = ''ann.png'', comment_user = ''u2'', comment_date = 9\<rparr>],
          post_date = 7\<rparr>)])"
  using AddComment_spec [where cast = "\<lambda>i. if length i = 2 then Some i else None"
      and users = "[(''u1'', \<lparr>user_name = ''Una'', user_avatar = ''una.png''\<rparr>)]"
      and new_cid = "''c3''" and now = "11" and caller = "''u1''" and pid = "''p1''"
      and k = "''p1''"
      and input = "''nice''" and usr = "\<lparr>user_name = ''Una'', user_avatar = ''una.png''\<rparr>"
      and posts = "[(''p1'',
        \<lparr>post_text = ''hello'', post_name = ''Una'', post_avatar = ''una.png'',
          post_user = ''u1'', likes = [],
          comments =
           [\<lparr>comment_id = ''c2'', comment_text = ''well'', comment_name = ''Ann'',
            comment_avatar = ''ann.png'', comment_user = ''u2'', comment_date = 9\<rparr>],
          post_date = 7\<rparr>)]"
      and p = "\<lparr>post_text = ''hello'', post_name = ''Una'', post_avatar = ''una.png'',
          post_user = ''u1'', likes = [],
          comments =
           [\<lparr>comment_id = ''c2'', comment_text = ''well'', comment_name = ''Ann'',
            comment_avatar = ''ann.png'', comment_user = ''u2'', comment_date = 9\<rparr>],
          post_date = 7\<rparr>"]
  by (simp add: save_def)

end
